theory Spec2Isabelle
  imports Main "HOL-Library.Word" "HOL-Library.Sublist"
begin

unbundle bit_operations_syntax

section \<open>Errors\<close>

text \<open>
  Go error values. An error that comes back from the kernel or from a library outside
  this package is opaque (\<open>ExtErr\<close>, tagged by its text). \<open>strconv.ParseUint\<close> fails
  with a \<open>NumError\<close> (function, input, cause). \<open>fmt.Errorf\<close> is kept symbolic: the
  format string of the source and its arguments, unformatted.
\<close>

datatype num_err = ErrSyntax | ErrRange

datatype error =
    ExtErr string
  | NumError string string num_err
  | Errorf string "fmtarg list"
and fmtarg =
    ArgS string
  | ArgE error
  | ArgSig int

section \<open>Requests\<close>

text \<open>The argument structures of the RPC methods (package \<open>rpc\<close>, imported as \<open>args\<close>).\<close>

record MountArgs =
  Source :: string
  Target :: string
  Filesystem :: string
  Mountflags :: "64 word"
  Data :: string

record CryptArgs =
  Key :: "8 word list"
  Loopdev :: string
  MasterPid :: int

record MkdirArgs =
  Path :: string
  Perm :: "32 word"

record ChrootArgs =
  Root :: string
  Method :: string

text \<open>
  Modelled from the spec: the declaration of \<open>loop.Info64\<close> is outside the sources at
  hand; the spec lists its content as size bounds, autoclear and read-only flags and an
  offset. The methods below only pass it on.
\<close>

record Info64 =
  Offset :: "64 word"
  SizeLimit :: "64 word"
  Flags :: "32 word"

record LoopArgs =
  Image :: string
  Mode :: int
  Info :: Info64
  MaxDevices :: int
  Shared :: bool

section \<open>The process and the calls it makes\<close>

text \<open>An \<open>*os.File\<close> is the descriptor it wraps.\<close>

datatype os_file = File nat

text \<open>
  Every call that leaves the package is an event. The trace of a run is the list of
  events in the order the code issued them.
\<close>

datatype event =
    RtLockOSThread
  | RtUnlockOSThread
  | SysMount string string string "64 word" string
  | SysUnmount string int
  | SysChdir string
  | SysFchdir nat
  | SysPivotRoot string string
  | SysChroot string
  | SysUmask int
  | SysSetfsuid int
  | SysSetfsgid int
  | SysKill int int
  | SysWait4 int int
  | OsGetwd
  | OsOpen string
  | OsOpenFile string int "32 word"
  | OsNewFile nat
  | OsMkdir string "32 word"
  | FileClose os_file
  | NsEnter int string
  | CryptOpen "8 word list" string
  | GetGrNam string
  | AttachFromFile int Info64 bool os_file int

text \<open>
  The current directory is kept symbolically: an absolute path, a path relative to
  the directory before, or the directory held by an open descriptor.
\<close>

datatype dir = Abs string | Rel dir string | Held nat

text \<open>
  A user or group id as the kernel keeps it: a 32-bit value other than
  \<open>(uid_t) -1\<close>, which stands for no id.
\<close>

typedef kid = "{n :: int. 0 \<le> n \<and> n < 4294967295}"
  morphisms id_val Kid
  by (intro exI [of _ 0]) simp

setup_lifting type_definition_kid

text \<open>The id of a number in that range (and id 0 for any other number).\<close>

lift_definition kid_of :: "int \<Rightarrow> kid" is
  "\<lambda>n. if 0 \<le> n \<and> n < 4294967295 then n else 0"
  by simp

text \<open>IPC namespaces are told apart by a number.\<close>

type_synonym nsid = nat

text \<open>
  The process, followed on the thread that serves the call: the calls made so far,
  the current directory, the creation mask (nine bits), the nine permission bits of
  the directories made so far, the real, effective, saved and filesystem ids, whether
  the process may set any id, its pid, the IPC namespace of the thread, the IPC
  namespace that the entry \<open>/proc/<pid>/ns/ipc\<close> of each pid shows, whether the thread
  is the thread-group leader (the entry of the own pid shows the namespace of the
  leader), and the package variable \<open>diskGID\<close> (-1 when the process starts).
\<close>

record world =
  trace :: "event list"
  cwd :: dir
  umask :: "9 word"
  dirs :: "string \<rightharpoonup> 9 word"
  ruid :: kid
  euid :: kid
  suid :: kid
  fsuid :: kid
  rgid :: kid
  egid :: kid
  sgid :: kid
  fsgid :: kid
  setid_cap :: bool
  self_pid :: int
  ipc_ns :: nsid
  proc_ipc :: "int \<Rightarrow> nsid"
  leader :: bool
  diskGID :: int

text \<open>
  What the kernel and the libraries answer is not decided by the code: it is a
  parameter, a function of the history so far, so that the same call may succeed once
  and fail later, and one answer may differ from the next.
\<close>

record kernel =
  k_fail :: "event list \<Rightarrow> event \<Rightarrow> error option"
  k_getwd :: "event list \<Rightarrow> error + string"
  k_open :: "event list \<Rightarrow> event \<Rightarrow> error + nat"
  k_getgrnam :: "event list \<Rightarrow> string \<Rightarrow> error + 32 word"
  k_attach :: "event list \<Rightarrow> event \<Rightarrow> error + int"
  k_crypt_open :: "event list \<Rightarrow> event \<Rightarrow> string \<times> error option"
  k_wait4 :: "event list \<Rightarrow> event \<Rightarrow> int \<times> 32 word \<times> error option"

definition emit :: "event \<Rightarrow> world \<Rightarrow> world" where
  "emit ev s = s\<lparr>trace := trace s @ [ev]\<rparr>"

text \<open>
  What a successful call changes in the process. \<open>mkdir(2)\<close> gives the new directory
  the mode \<open>mode & ~umask\<close>; an \<open>os.FileMode\<close> has the permission bits in its low
  nine bits, and only these are followed. \<open>namespaces.Enter(pid, "ipc")\<close> opens
  \<open>/proc/<pid>/ns/ipc\<close> and moves the calling thread into the namespace it shows;
  when the thread is the leader, the entry of the own pid shows the new namespace
  from then on.
\<close>

definition is_abs :: "string \<Rightarrow> bool" where
  "is_abs p = (case p of [] \<Rightarrow> False | c # _ \<Rightarrow> c = CHR ''/'')"

fun effect :: "event \<Rightarrow> world \<Rightarrow> world" where
  "effect (SysChdir p) s = s\<lparr>cwd := (if is_abs p then Abs p else Rel (cwd s) p)\<rparr>"
| "effect (SysFchdir fd) s = s\<lparr>cwd := Held fd\<rparr>"
| "effect (NsEnter p ns) s =
     (if ns = ''ipc'' then
        s\<lparr>ipc_ns := proc_ipc s p,
          proc_ipc := (if leader s then (proc_ipc s)(self_pid s := proc_ipc s p)
                       else proc_ipc s)\<rparr>
      else s)"
| "effect (OsMkdir p m) s = s\<lparr>dirs := (dirs s)(p \<mapsto> ucast m AND NOT (umask s))\<rparr>"
| "effect _ s = s"

text \<open>A call that answers with an error or nothing.\<close>

definition call :: "kernel \<Rightarrow> event \<Rightarrow> world \<Rightarrow> world \<times> error option" where
  "call K ev s =
     (case k_fail K (trace s) ev of
        None \<Rightarrow> (effect ev (emit ev s), None)
      | Some e \<Rightarrow> (emit ev s, Some e))"

text \<open>\<open>umask(2)\<close> never fails: it installs \<open>mask & 0777\<close> and returns the mask before.\<close>

definition Umask :: "int \<Rightarrow> world \<Rightarrow> world \<times> int" where
  "Umask m s = ((emit (SysUmask m) s)\<lparr>umask := word_of_int m\<rparr>, uint (umask s))"

text \<open>
  \<open>setfsuid(2)\<close> and \<open>setfsgid(2)\<close> report nothing the code reads. The kernel reads
  the low 32 bits of the argument. It leaves the id alone when they are
  \<open>(uid_t) -1\<close>; otherwise it makes the change when the caller holds the capability
  or the new id is one of its real, effective, saved or filesystem ids, and leaves
  the id alone when not.
\<close>

definition Setfsuid :: "int \<Rightarrow> world \<Rightarrow> world" where
  "Setfsuid u s =
     (let s' = emit (SysSetfsuid u) s; v = u mod 4294967296
      in if v = 4294967295 then s'
         else if setid_cap s \<or>
                 v \<in> {id_val (ruid s), id_val (euid s), id_val (suid s), id_val (fsuid s)}
              then s'\<lparr>fsuid := kid_of v\<rparr>
              else s')"

definition Setfsgid :: "int \<Rightarrow> world \<Rightarrow> world" where
  "Setfsgid g s =
     (let s' = emit (SysSetfsgid g) s; v = g mod 4294967296
      in if v = 4294967295 then s'
         else if setid_cap s \<or>
                 v \<in> {id_val (rgid s), id_val (egid s), id_val (sgid s), id_val (fsgid s)}
              then s'\<lparr>fsgid := kid_of v\<rparr>
              else s')"

text \<open>\<open>os.Getuid\<close> and \<open>os.Getgid\<close>: the real ids, as Go integers.\<close>

definition Getuid :: "world \<Rightarrow> int" where
  "Getuid s = id_val (ruid s)"

definition Getgid :: "world \<Rightarrow> int" where
  "Getgid s = id_val (rgid s)"

section \<open>The RPC server (server_linux.go)\<close>

subsection \<open>Mount\<close>

text \<open>
  \<open>mainthread.Execute\<close> runs the closure on the main thread and waits for it; the
  closure stores the result of \<open>syscall.Mount\<close> in \<open>*mountErr\<close>, and the method
  returns nil. The result is (world, \<open>*mountErr\<close>, returned error).
\<close>

definition Mount :: "kernel \<Rightarrow> world \<Rightarrow> MountArgs \<Rightarrow> world \<times> error option \<times> error option" where
  "Mount K s arguments =
     (let (s', mountErr) =
            call K (SysMount (Source arguments) (Target arguments) (Filesystem arguments)
                             (Mountflags arguments) (Data arguments)) s
      in (s', mountErr, None))"

subsection \<open>Mkdir\<close>

definition Mkdir :: "kernel \<Rightarrow> world \<Rightarrow> MkdirArgs \<Rightarrow> world \<times> error option" where
  "Mkdir K s arguments =
     (let (s1, oldmask) = Umask 0 s;
          (s2, err) = call K (OsMkdir (Path arguments) (Perm arguments)) s1;
          (s3, _) = Umask oldmask s2
      in (s3, err))"

subsection \<open>Decrypt\<close>

text \<open>\<open>cryptDev.Open\<close> is outside the package: it answers a name and an error.\<close>

definition crypt_open ::
  "kernel \<Rightarrow> 8 word list \<Rightarrow> string \<Rightarrow> world \<Rightarrow> world \<times> string \<times> error option" where
  "crypt_open K key dev s =
     (let ev = CryptOpen key dev; (name, err) = k_crypt_open K (trace s) ev
      in (emit ev s, name, err))"

text \<open>
  The body of \<open>Decrypt\<close> up to its return; the result is (world, \<open>*reply\<close>, returned
  error), where \<open>*reply\<close> is \<open>None\<close> as long as nothing was assigned to it.
\<close>

definition Decrypt_body ::
  "kernel \<Rightarrow> world \<Rightarrow> CryptArgs \<Rightarrow> world \<times> string option \<times> error option" where
  "Decrypt_body K s arguments =
     (case (if MasterPid arguments > 0
            then call K (NsEnter (MasterPid arguments) ''ipc'') (emit RtLockOSThread s)
            else (s, None)) of
        (s1, Some err) \<Rightarrow>
          (s1, None, Some (Errorf ''while joining host IPC namespace: %s'' [ArgE err]))
      | (s1, None) \<Rightarrow>
          (let (s2, cryptName, err) = crypt_open K (Key arguments) (Loopdev arguments) s1
           in case (if MasterPid arguments > 0
                    then call K (NsEnter (self_pid s2) ''ipc'') s2
                    else (s2, None)) of
                (s3, Some err') \<Rightarrow>
                  (s3, None,
                   Some (Errorf ''while joining container IPC namespace: %s'' [ArgE err']))
              | (s3, None) \<Rightarrow> (s3, Some (''/dev/mapper/'' @ cryptName), err)))"

text \<open>The deferred \<open>runtime.UnlockOSThread\<close> runs at every return once it was registered.\<close>

definition Decrypt ::
  "kernel \<Rightarrow> world \<Rightarrow> CryptArgs \<Rightarrow> world \<times> string option \<times> error option" where
  "Decrypt K s arguments =
     (let (s', reply, err) = Decrypt_body K s arguments
      in ((if MasterPid arguments > 0 then emit RtUnlockOSThread s' else s'), reply, err))"

subsection \<open>Chroot\<close>

definition MS_MOVE :: "64 word" where "MS_MOVE = 8192"
definition MS_REC :: "64 word" where "MS_REC = 16384"
definition MS_SLAVE :: "64 word" where "MS_SLAVE = 524288"
definition MNT_DETACH :: int where "MNT_DETACH = 2"

text \<open>A call whose error is wrapped before it is returned.\<close>

definition step ::
  "kernel \<Rightarrow> event \<Rightarrow> (error \<Rightarrow> error) \<Rightarrow> world \<Rightarrow> world \<times> error option" where
  "step K ev wrap s =
     (case call K ev s of (s', None) \<Rightarrow> (s', None) | (s', Some e) \<Rightarrow> (s', Some (wrap e)))"

text \<open>Statements in sequence: the first error returns.\<close>

fun steps :: "(world \<Rightarrow> world \<times> error option) list \<Rightarrow> world \<Rightarrow> world \<times> error option" where
  "steps [] s = (s, None)"
| "steps (f # fs) s = (case f s of (s', None) \<Rightarrow> steps fs s' | (s', Some e) \<Rightarrow> (s', Some e))"

definition getwd :: "kernel \<Rightarrow> world \<Rightarrow> world \<times> (error + string)" where
  "getwd K s = (emit OsGetwd s, k_getwd K (trace s))"

definition os_open :: "kernel \<Rightarrow> event \<Rightarrow> world \<Rightarrow> world \<times> (error + os_file)" where
  "os_open K ev s =
     (case k_open K (trace s) ev of
        Inl e \<Rightarrow> (emit ev s, Inl e)
      | Inr fd \<Rightarrow> (emit ev s, Inr (File fd)))"

fun Fd :: "os_file \<Rightarrow> nat" where
  "Fd (File n) = n"

text \<open>Lines 81 to 93: enter the new root, or take the current directory for its name.\<close>

definition chroot_enter :: "kernel \<Rightarrow> world \<Rightarrow> string \<Rightarrow> world \<times> (error + string)" where
  "chroot_enter K s root =
     (if root \<noteq> ''.'' then
        (case call K (SysChdir root) s of
           (s1, Some err) \<Rightarrow> (s1, Inl (Errorf ''failed to change directory to %s'' [ArgS root]))
         | (s1, None) \<Rightarrow> (s1, Inr root))
      else
        (case getwd K s of
           (s1, Inr wd) \<Rightarrow> (s1, Inr wd)
         | (s1, Inl err) \<Rightarrow> (s1, Inr root)))"

text \<open>Lines 144 to 148.\<close>

definition chdir_slash :: "kernel \<Rightarrow> world \<Rightarrow> world \<times> error option" where
  "chdir_slash K = step K (SysChdir ''/'') (\<lambda>err. Errorf ''chdir / %s'' [ArgE err])"

definition pivot_steps ::
  "kernel \<Rightarrow> string \<Rightarrow> os_file \<Rightarrow> (world \<Rightarrow> world \<times> error option) list" where
  "pivot_steps K root oldroot =
     [step K (SysPivotRoot ''.'' ''.'') (\<lambda>err. Errorf ''pivot_root %s: %s'' [ArgS root, ArgE err]),
      step K (SysFchdir (Fd oldroot))
        (\<lambda>err. Errorf ''failed to change directory to old root: %s'' [ArgE err]),
      step K (SysMount [] ''.'' [] (MS_SLAVE OR MS_REC) [])
        (\<lambda>err. Errorf
           ''failed to apply slave mount propagation for host / directory: %s'' [ArgE err]),
      step K (SysUnmount ''.'' MNT_DETACH)
        (\<lambda>err. Errorf ''unmount pivot_root dir %s'' [ArgE err])]"

definition move_steps :: "kernel \<Rightarrow> string \<Rightarrow> (world \<Rightarrow> world \<times> error option) list" where
  "move_steps K root =
     [step K (SysMount ''.'' ''/'' [] MS_MOVE [])
        (\<lambda>err. Errorf ''failed to move %s as / directory: %s'' [ArgS root, ArgE err]),
      step K (SysChroot ''.'') (\<lambda>err. Errorf ''chroot failed: %s'' [ArgE err])]"

definition chroot_steps :: "kernel \<Rightarrow> (world \<Rightarrow> world \<times> error option) list" where
  "chroot_steps K = [step K (SysChroot ''.'') (\<lambda>err. Errorf ''chroot failed: %s'' [ArgE err])]"

text \<open>
  The switch has three cases and no default. In the pivot case the deferred
  \<open>oldroot.Close\<close> runs at every return after the open succeeded.
\<close>

definition Chroot :: "kernel \<Rightarrow> world \<Rightarrow> ChrootArgs \<Rightarrow> world \<times> error option" where
  "Chroot K s arguments =
     (case chroot_enter K s (Root arguments) of
        (s1, Inl err) \<Rightarrow> (s1, Some err)
      | (s1, Inr root) \<Rightarrow>
          if Method arguments = ''pivot'' then
            (case os_open K (OsOpen ''/'') s1 of
               (s2, Inl err) \<Rightarrow>
                 (s2, Some (Errorf ''failed to open host root directory: %s'' [ArgE err]))
             | (s2, Inr oldroot) \<Rightarrow>
                 (let (s3, r) = steps (pivot_steps K root oldroot @ [chdir_slash K]) s2
                  in (emit (FileClose oldroot) s3, r)))
          else if Method arguments = ''move'' then steps (move_steps K root @ [chdir_slash K]) s1
          else if Method arguments = ''chroot'' then steps (chroot_steps K @ [chdir_slash K]) s1
          else steps [chdir_slash K] s1)"

subsection \<open>LoopDevice\<close>

text \<open>
  \<open>strconv.ParseUint(s, 10, 32)\<close>: the empty string and any byte that is not a digit
  are syntax errors (a letter is a digit of value ten or more, refused in base ten; no
  sign and no underscore is accepted when the base is given), and a value above
  \<open>2^32 - 1\<close> is a range error, reported as soon as the prefix read so far exceeds it.
  The value is a \<open>uint64\<close> in Go; it never exceeds \<open>maxVal\<close> here, so nothing wraps.
\<close>

definition digit_of :: "char \<Rightarrow> nat option" where
  "digit_of c =
     (let n = (of_char c :: nat) in if 48 \<le> n \<and> n \<le> 57 then Some (n - 48) else None)"

definition cutoff :: nat where "cutoff = 18446744073709551615 div 10 + 1"
definition maxVal :: nat where "maxVal = 2 ^ 32 - 1"

fun parse_digits :: "string \<Rightarrow> nat \<Rightarrow> string \<Rightarrow> error + nat" where
  "parse_digits s0 n [] = Inr n"
| "parse_digits s0 n (c # cs) =
     (case digit_of c of
        None \<Rightarrow> Inl (NumError ''ParseUint'' s0 ErrSyntax)
      | Some d \<Rightarrow>
          if n \<ge> cutoff then Inl (NumError ''ParseUint'' s0 ErrRange)
          else (let n1 = n * 10 + d
                in if n1 > maxVal then Inl (NumError ''ParseUint'' s0 ErrRange)
                   else parse_digits s0 n1 cs))"

definition ParseUint_10_32 :: "string \<Rightarrow> error + nat" where
  "ParseUint_10_32 s =
     (if s = [] then Inl (NumError ''ParseUint'' s ErrSyntax) else parse_digits s 0 s)"

definition HasPrefix :: "string \<Rightarrow> string \<Rightarrow> bool" where
  "HasPrefix s p = prefix p s"

definition TrimPrefix :: "string \<Rightarrow> string \<Rightarrow> string" where
  "TrimPrefix s p = (if HasPrefix s p then drop (length p) s else s)"

text \<open>Lines 160 to 173: the image is an inherited descriptor or a path to open.\<close>

definition open_image :: "kernel \<Rightarrow> world \<Rightarrow> LoopArgs \<Rightarrow> world \<times> (error + os_file)" where
  "open_image K s arguments =
     (if HasPrefix (Image arguments) ''/proc/self/fd/'' then
        (let strFd = TrimPrefix (Image arguments) ''/proc/self/fd/''
         in case ParseUint_10_32 strFd of
              Inl err \<Rightarrow>
                (s, Inl (Errorf ''failed to convert image file descriptor: %v'' [ArgE err]))
            | Inr fd \<Rightarrow> (emit (OsNewFile fd) s, Inr (File fd)))
      else
        (case os_open K (OsOpenFile (Image arguments) (Mode arguments) 384) s of
           (s', Inl err) \<Rightarrow> (s', Inl (Errorf ''could not open image file: %v'' [ArgE err]))
         | (s', Inr img) \<Rightarrow> (s', Inr img)))"

text \<open>
  Lines 175 to 181. \<open>gr.GID\<close> is a \<open>uint32\<close>, and \<open>int\<close> has 64 bits: the conversion
  gives a value from 0 to \<open>2^32 - 1\<close>.
\<close>

definition lookup_diskGID :: "kernel \<Rightarrow> world \<Rightarrow> world" where
  "lookup_diskGID K s =
     (if diskGID s = - 1 then
        (case k_getgrnam K (trace s) ''disk'' of
           Inr gid \<Rightarrow> (emit (GetGrNam ''disk'') s)\<lparr>diskGID := uint gid\<rparr>
         | Inl err \<Rightarrow> (emit (GetGrNam ''disk'') s)\<lparr>diskGID := 0\<rparr>)
      else s)"

definition attach :: "kernel \<Rightarrow> event \<Rightarrow> world \<Rightarrow> world \<times> (error + int)" where
  "attach K ev s = (emit ev s, k_attach K (trace s) ev)"

text \<open>
  Lines 183 to 194. The arguments of the deferred calls, \<open>os.Getuid()\<close> and
  \<open>os.Getgid()\<close>, are read where the \<open>defer\<close> statements stand; the deferred calls run
  last in, first out. The result is (world, \<open>*reply\<close>, returned error).
\<close>

definition attach_escalated ::
  "kernel \<Rightarrow> world \<Rightarrow> LoopArgs \<Rightarrow> os_file \<Rightarrow> world \<times> int option \<times> error option" where
  "attach_escalated K s arguments img =
     (let s1 = emit RtLockOSThread s;
          s2 = Setfsuid 0 s1;
          s3 = Setfsgid (diskGID s2) s2;
          uid = Getuid s3;
          gid = Getgid s3;
          (s4, r) = attach K (AttachFromFile (MaxDevices arguments) (Info arguments)
                                (Shared arguments) img (Mode arguments)) s3;
          s5 = Setfsgid gid s4;
          s6 = Setfsuid uid s5;
          s7 = emit RtUnlockOSThread s6
      in case r of
           Inl err \<Rightarrow>
             (s7, None,
              Some (Errorf ''could not attach image file to loop device: %v'' [ArgE err]))
         | Inr n \<Rightarrow> (s7, Some n, None))"

definition LoopDevice ::
  "kernel \<Rightarrow> world \<Rightarrow> LoopArgs \<Rightarrow> world \<times> int option \<times> error option" where
  "LoopDevice K s arguments =
     (case open_image K s arguments of
        (s1, Inl err) \<Rightarrow> (s1, None, Some err)
      | (s1, Inr img) \<Rightarrow> attach_escalated K (lookup_diskGID K s1) arguments img)"

section \<open>The image-build engine (process_linux.go)\<close>

definition SIGCHLD :: int where "SIGCHLD = 17"
definition WNOHANG :: int where "WNOHANG = 1"

text \<open>
  \<open>MonitorContainer\<close> receives from a channel for ever. The signals that will be
  delivered are a list; when the list is used up the receive blocks (\<open>Receiving\<close>).
  \<open>syscall.Wait4\<close> always stores a status, also when nothing was reaped.
\<close>

datatype monitor_result = Returned "32 word" "error option" | Receiving

definition wait4 :: "kernel \<Rightarrow> event \<Rightarrow> world \<Rightarrow> world \<times> int \<times> 32 word \<times> error option" where
  "wait4 K ev s = (emit ev s, k_wait4 K (trace s) ev)"

fun monitor_loop ::
  "kernel \<Rightarrow> int \<Rightarrow> 32 word \<Rightarrow> world \<Rightarrow> int list \<Rightarrow> world \<times> monitor_result" where
  "monitor_loop K pid status s [] = (s, Receiving)"
| "monitor_loop K pid status s (sg # signals) =
     (if sg = SIGCHLD then
        (case wait4 K (SysWait4 pid WNOHANG) s of
           (s', wpid, status', Some err) \<Rightarrow>
             (s', Returned status' (Some (Errorf ''error while waiting child: %s'' [ArgE err])))
         | (s', wpid, status', None) \<Rightarrow>
             if wpid \<noteq> pid then monitor_loop K pid status' s' signals
             else (s', Returned status' None))
      else
        (case call K (SysKill pid sg) s of
           (s', Some err) \<Rightarrow>
             (s', Returned status (Some (Errorf ''interrupted by signal %s'' [ArgSig sg])))
         | (s', None) \<Rightarrow> monitor_loop K pid status s' signals))"

definition MonitorContainer :: "kernel \<Rightarrow> int \<Rightarrow> world \<Rightarrow> int list \<Rightarrow> world \<times> monitor_result" where
  "MonitorContainer K pid s signals = monitor_loop K pid 0 s signals"

section \<open>Notions of the specification\<close>

text \<open>
  A run of the server: \<open>LoopDevice\<close> calls one after the other, each with the kernel
  (and so the group database) of its moment.
\<close>

fun LoopDevice_calls :: "(kernel \<times> LoopArgs) list \<Rightarrow> world \<Rightarrow> world" where
  "LoopDevice_calls [] s = s"
| "LoopDevice_calls ((K, arguments) # cs) s = LoopDevice_calls cs (fst (LoopDevice K s arguments))"

definition count_lookups :: "event list \<Rightarrow> nat" where
  "count_lookups tr = length (filter (\<lambda>ev. ev = GetGrNam ''disk'') tr)"




text \<open>
  An error wrapped with context: made by \<open>fmt.Errorf\<close> from the error and the
  context strings.
\<close>

fun wrapped_with :: "error \<Rightarrow> string list \<Rightarrow> error option \<Rightarrow> bool" where
  "wrapped_with e ctx (Some (Errorf f as)) = (ArgE e \<in> set as \<and> set (map ArgS ctx) \<subseteq> set as)"
| "wrapped_with e ctx _ = False"

text \<open>What \<open>MonitorContainer\<close> does with one signal it received.\<close>

definition relay :: "int \<Rightarrow> int \<Rightarrow> event" where
  "relay pid sg = (if sg = SIGCHLD then SysWait4 pid WNOHANG else SysKill pid sg)"

text \<open>
  The loop goes on after a signal: the kill did not fail, or the reap did not fail
  and gave another pid than the tracked one.
\<close>

definition goes_on :: "kernel \<Rightarrow> int \<Rightarrow> event list \<Rightarrow> int \<Rightarrow> bool" where
  "goes_on K pid tr sg =
     (if sg = SIGCHLD then
        (case k_wait4 K tr (SysWait4 pid WNOHANG) of
           (wpid, status, err) \<Rightarrow> err = None \<and> wpid \<noteq> pid)
      else k_fail K tr (SysKill pid sg) = None)"

section \<open>Concrete processes and kernels\<close>

text \<open>A kernel under which every call succeeds.\<close>

definition K_ok :: kernel where
  "K_ok = \<lparr>k_fail = (\<lambda>tr ev. None),
           k_getwd = (\<lambda>tr. Inr ''/mnt/rootfs''),
           k_open = (\<lambda>tr ev. Inr 3),
           k_getgrnam = (\<lambda>tr name. Inr 6),
           k_attach = (\<lambda>tr ev. Inr 0),
           k_crypt_open = (\<lambda>tr ev. (''crypt0'', None)),
           k_wait4 = (\<lambda>tr ev. case ev of SysWait4 p opts \<Rightarrow> (p, 0, None) | _ \<Rightarrow> (0, 0, None))\<rparr>"

text \<open>The same kernel, refusing the calls that satisfy \<open>P\<close>.\<close>

definition K_refusing :: "(event \<Rightarrow> bool) \<Rightarrow> kernel" where
  "K_refusing P =
     K_ok\<lparr>k_fail := (\<lambda>tr ev. if P ev then Some (ExtErr ''operation not permitted'') else None)\<rparr>"

text \<open>A kernel under which the unlock fails, with no name.\<close>

definition K_locked :: kernel where
  "K_locked = K_ok\<lparr>k_crypt_open := (\<lambda>tr ev. ([], Some (ExtErr ''unable to open crypt device'')))\<rparr>"

text \<open>A kernel under which the child has not exited at the first reap.\<close>

definition K_late_child :: kernel where
  "K_late_child =
     K_ok\<lparr>k_wait4 := (\<lambda>tr ev. case ev of
                                  SysWait4 p opts \<Rightarrow>
                                    if SysWait4 p opts \<in> set tr then (p, 256, None) else (0, 0, None)
                                | _ \<Rightarrow> (0, 0, None))\<rparr>"

text \<open>
  The server of a set-uid installation after it dropped its filesystem ids to the
  user's: real ids 1000, effective ids 0, creation mask 022. The serving thread is
  not the leader; it is in the IPC namespace 1 of the container, which the entry of
  its pid 4242 shows, and the entry of every other pid shows the namespace 0 of the
  host.
\<close>

definition world0 :: world where
  "world0 = \<lparr>trace = [], cwd = Abs ''/'', umask = 18, dirs = Map.empty,
             ruid = kid_of 1000, euid = kid_of 0, suid = kid_of 0, fsuid = kid_of 1000,
             rgid = kid_of 1000, egid = kid_of 0, sgid = kid_of 0, fsgid = kid_of 1000,
             setid_cap = True, self_pid = 4242, ipc_ns = 1,
             proc_ipc = (\<lambda>p. if p = 4242 then 1 else 0), leader = False, diskGID = - 1\<rparr>"

text \<open>The same server with the filesystem ids of its effective ids.\<close>

definition world_suid :: world where
  "world_suid = world0\<lparr>fsuid := kid_of 0, fsgid := kid_of 0\<rparr>"

text \<open>The same server with the call served on the leader thread.\<close>

definition world_leader :: world where
  "world_leader = world0\<lparr>leader := True\<rparr>"

definition proc_mount :: MountArgs where
  "proc_mount = \<lparr>Source = ''/proc'', Target = ''/new/proc'', Filesystem = ''proc'',
                 Mountflags = 0, Data = []\<rparr>"

definition loop_args :: "string \<Rightarrow> LoopArgs" where
  "loop_args img = \<lparr>Image = img, Mode = 2, Info = \<lparr>Offset = 0, SizeLimit = 0, Flags = 0\<rparr>,
                    MaxDevices = 256, Shared = False\<rparr>"

definition crypt_args :: "int \<Rightarrow> CryptArgs" where
  "crypt_args master = \<lparr>Key = [1, 2, 3], Loopdev = ''/dev/loop0'', MasterPid = master\<rparr>"

section \<open>Properties of the RPC server\<close>

lemma trace_emit: "trace (emit ev s) = trace s @ [ev]"
  by (simp add: emit_def)

lemma crypt_open_eq:
  "crypt_open K key dev s =
     (emit (CryptOpen key dev) s, k_crypt_open K (trace s) (CryptOpen key dev))"
  by (simp add: crypt_open_def Let_def split: prod.splits)

subsection \<open>Mount\<close>

text \<open>
  Claim C7, as the code has it. The claim says that a failing mount comes back as the
  kernel error wrapped with the source and the target. \<open>Mount\<close> issues the mount call
  once, with the five arguments of the request, stores what the kernel answered in
  the reply as it is (nothing when the mount succeeded, the kernel error itself when
  it failed) and returns no error of its own.
\<close>

theorem Mount_reply_verbatim:
  "Mount K s arguments = (s', mountErr, err) \<Longrightarrow>
     err = None \<and>
     mountErr = k_fail K (trace s) (SysMount (Source arguments) (Target arguments)
                  (Filesystem arguments) (Mountflags arguments) (Data arguments)) \<and>
     trace s' = trace s @ [SysMount (Source arguments) (Target arguments)
                  (Filesystem arguments) (Mountflags arguments) (Data arguments)]"
  by (auto simp: Mount_def call_def emit_def split: option.splits)

theorem Mount_reply_verbatim_witness:
  "fst (snd (Mount (K_refusing (\<lambda>ev. True)) world0 proc_mount))
     = Some (ExtErr ''operation not permitted'')
   \<and> snd (snd (Mount (K_refusing (\<lambda>ev. True)) world0 proc_mount)) = None
   \<and> trace (fst (Mount (K_refusing (\<lambda>ev. True)) world0 proc_mount))
     = [SysMount ''/proc'' ''/new/proc'' ''proc'' 0 []]"
  using Mount_reply_verbatim [of "K_refusing (\<lambda>ev. True)" world0 proc_mount
     "fst (Mount (K_refusing (\<lambda>ev. True)) world0 proc_mount)"
     "fst (snd (Mount (K_refusing (\<lambda>ev. True)) world0 proc_mount))"
     "snd (snd (Mount (K_refusing (\<lambda>ev. True)) world0 proc_mount))"]
  by (simp add: K_refusing_def K_ok_def world0_def proc_mount_def)

text \<open>
  Claim C7 as it is written fails: when the kernel refuses to mount \<open>/proc\<close> on
  \<open>/new/proc\<close>, the reply is the bare kernel error, the method returns nil, and
  neither is an error wrapped with the source and the target.
\<close>

theorem Mount_error_not_wrapped:
  "fst (snd (Mount (K_refusing (\<lambda>ev. True)) world0 proc_mount))
     = Some (ExtErr ''operation not permitted'')
   \<and> snd (snd (Mount (K_refusing (\<lambda>ev. True)) world0 proc_mount)) = None
   \<and> \<not> wrapped_with (ExtErr ''operation not permitted'') [''/proc'', ''/new/proc'']
         (fst (snd (Mount (K_refusing (\<lambda>ev. True)) world0 proc_mount)))
   \<and> \<not> wrapped_with (ExtErr ''operation not permitted'') [''/proc'', ''/new/proc'']
         (snd (snd (Mount (K_refusing (\<lambda>ev. True)) world0 proc_mount)))"
  by (simp add: Mount_def call_def emit_def K_refusing_def K_ok_def world0_def proc_mount_def)

subsection \<open>Mkdir\<close>

text \<open>
  Claim C6. \<open>Mkdir\<close> sets the creation mask to 0, creates the directory and sets the
  mask back, in this order and whatever the creation answered. The mask after the
  call is the mask before it. When the creation succeeded the directory has the nine
  permission bits of the request, whatever the mask before the call was; when it
  failed no directory was made.
\<close>

theorem Mkdir_exact_mode_mask_restored:
  "Mkdir K s arguments = (s', err) \<Longrightarrow>
     trace s' = trace s @ [SysUmask 0, OsMkdir (Path arguments) (Perm arguments),
                           SysUmask (uint (umask s))] \<and>
     umask s' = umask s \<and>
     err = k_fail K (trace s @ [SysUmask 0]) (OsMkdir (Path arguments) (Perm arguments)) \<and>
     (err = None \<longrightarrow> dirs s' (Path arguments) = Some (ucast (Perm arguments))) \<and>
     (err \<noteq> None \<longrightarrow> dirs s' = dirs s)"
  by (auto simp: Mkdir_def Umask_def call_def emit_def split: option.splits)

text \<open>Mode 0755 (493) under the mask 022 (18): the directory has mode 0755.\<close>

theorem Mkdir_exact_mode_mask_restored_witness:
  "dirs (fst (Mkdir K_ok world0 \<lparr>Path = ''/tmp/d'', Perm = 493\<rparr>)) ''/tmp/d'' = Some 493
   \<and> umask (fst (Mkdir K_ok world0 \<lparr>Path = ''/tmp/d'', Perm = 493\<rparr>)) = 18
   \<and> umask world0 = 18
   \<and> snd (Mkdir K_ok world0 \<lparr>Path = ''/tmp/d'', Perm = 493\<rparr>) = None"
  using Mkdir_exact_mode_mask_restored [of K_ok world0 "\<lparr>Path = ''/tmp/d'', Perm = 493\<rparr>"
     "fst (Mkdir K_ok world0 \<lparr>Path = ''/tmp/d'', Perm = 493\<rparr>)"
     "snd (Mkdir K_ok world0 \<lparr>Path = ''/tmp/d'', Perm = 493\<rparr>)"]
  by (simp add: K_ok_def world0_def)

subsection \<open>Decrypt\<close>

text \<open>
  Claim C3, as the code has it. The claim says that, once the host namespace was
  joined, the caller's own IPC namespace is re-joined after the unlock. With a master
  pid of zero or less \<open>Decrypt\<close> makes one call, the unlock, and the IPC namespace of
  the thread is the one it had. With a master pid above zero and the join of the
  host namespace successful, the calls are, whatever the unlock answered: lock the
  thread, join the namespace of the master, unlock, join the namespace that the
  entry of the own pid shows, unlock the thread. When the kernel refuses this last
  join, \<open>Decrypt\<close> returns its error and the thread stays in the namespace of the
  master. When the kernel accepts it, the thread is in the namespace that the entry
  of the own pid showed before the call, unless the thread is the leader: then that
  entry followed it, and the thread stays in the namespace of the master. So the
  thread is back in the namespace it had before the call when the last join
  succeeds, the thread is not the leader and the entry of the own pid showed the
  namespace of the thread.
\<close>

theorem Decrypt_ipc_namespace:
  "Decrypt K s arguments = (s', reply, err) \<Longrightarrow>
     (MasterPid arguments \<le> 0 \<longrightarrow>
        ipc_ns s' = ipc_ns s \<and>
        trace s' = trace s @ [CryptOpen (Key arguments) (Loopdev arguments)]) \<and>
     (MasterPid arguments > 0 \<and>
      k_fail K (trace s @ [RtLockOSThread]) (NsEnter (MasterPid arguments) ''ipc'') = None \<longrightarrow>
        trace s' = trace s @ [RtLockOSThread, NsEnter (MasterPid arguments) ''ipc'',
                              CryptOpen (Key arguments) (Loopdev arguments),
                              NsEnter (self_pid s) ''ipc'', RtUnlockOSThread] \<and>
        (case k_fail K (trace s @ [RtLockOSThread, NsEnter (MasterPid arguments) ''ipc'',
                                   CryptOpen (Key arguments) (Loopdev arguments)])
                (NsEnter (self_pid s) ''ipc'') of
           None \<Rightarrow>
             ipc_ns s' = (if leader s then proc_ipc s (MasterPid arguments)
                          else proc_ipc s (self_pid s)) \<and>
             (\<not> leader s \<and> proc_ipc s (self_pid s) = ipc_ns s \<longrightarrow> ipc_ns s' = ipc_ns s)
         | Some e \<Rightarrow>
             ipc_ns s' = proc_ipc s (MasterPid arguments) \<and>
             reply = None \<and>
             err = Some (Errorf ''while joining container IPC namespace: %s'' [ArgE e])))"
  by (auto simp: Decrypt_def Decrypt_body_def crypt_open_eq call_def emit_def
           split: option.splits prod.splits if_splits)

text \<open>
  A failing unlock with master pid 1, served on a thread that is not the leader: the
  thread is back in namespace 1. The same with master pid 0.
\<close>

theorem Decrypt_ipc_namespace_witness:
  "ipc_ns world0 = 1
   \<and> ipc_ns (fst (Decrypt K_locked world0 (crypt_args 1))) = 1
   \<and> trace (fst (Decrypt K_locked world0 (crypt_args 1)))
       = [RtLockOSThread, NsEnter 1 ''ipc'', CryptOpen [1, 2, 3] ''/dev/loop0'',
          NsEnter 4242 ''ipc'', RtUnlockOSThread]
   \<and> ipc_ns (fst (Decrypt K_locked world0 (crypt_args 0))) = 1"
  using Decrypt_ipc_namespace [of K_locked world0 "crypt_args 1"
      "fst (Decrypt K_locked world0 (crypt_args 1))"
      "fst (snd (Decrypt K_locked world0 (crypt_args 1)))"
      "snd (snd (Decrypt K_locked world0 (crypt_args 1)))"]
    Decrypt_ipc_namespace [of K_locked world0 "crypt_args 0"
      "fst (Decrypt K_locked world0 (crypt_args 0))"
      "fst (snd (Decrypt K_locked world0 (crypt_args 0)))"
      "snd (snd (Decrypt K_locked world0 (crypt_args 0)))"]
  by (simp add: K_locked_def K_ok_def world0_def crypt_args_def)

text \<open>
  Claim C3 as it is written fails: with master pid 1, the join of the host namespace
  accepted and the join back refused, the thread that was in namespace 1 ends in
  the namespace 0 of the host and \<open>Decrypt\<close> returns the error of the join. And on
  the leader thread, with every call accepted, the thread ends in namespace 0 too.
\<close>

theorem Decrypt_rejoin_refused:
  "k_fail (K_refusing (\<lambda>ev. ev = NsEnter 4242 ''ipc'')) (trace world0 @ [RtLockOSThread])
       (NsEnter 1 ''ipc'') = None
   \<and> ipc_ns world0 = 1
   \<and> ipc_ns (fst (Decrypt (K_refusing (\<lambda>ev. ev = NsEnter 4242 ''ipc'')) world0 (crypt_args 1)))
       = 0
   \<and> snd (snd (Decrypt (K_refusing (\<lambda>ev. ev = NsEnter 4242 ''ipc'')) world0 (crypt_args 1)))
       = Some (Errorf ''while joining container IPC namespace: %s''
                 [ArgE (ExtErr ''operation not permitted'')])
   \<and> ipc_ns world_leader = 1
   \<and> snd (snd (Decrypt K_ok world_leader (crypt_args 1))) = None
   \<and> ipc_ns (fst (Decrypt K_ok world_leader (crypt_args 1))) = 0"
  by (simp add: Decrypt_def Decrypt_body_def crypt_open_eq call_def emit_def
        K_refusing_def K_ok_def world_leader_def world0_def crypt_args_def)

text \<open>
  Claim C10, as the code has it. The claim says that every call that reaches the
  unlock assigns the reply. Take a call that reaches the unlock (the master pid is
  zero or less, or the join of the host namespace succeeded), \<open>tr\<close> the trace at the
  unlock. When the master pid is above zero and the join back fails, the reply is not
  assigned and the error of the join is returned. In every other case the reply is
  \<open>/dev/mapper/\<close> followed by the name the unlock answered, and the error of the
  unlock is returned with it, also when the unlock failed.
\<close>

theorem Decrypt_reply_assigned:
  "Decrypt K s arguments = (s', reply, err) \<Longrightarrow>
   tr = trace s @ (if MasterPid arguments > 0
                   then [RtLockOSThread, NsEnter (MasterPid arguments) ''ipc''] else []) \<Longrightarrow>
   ev = CryptOpen (Key arguments) (Loopdev arguments) \<Longrightarrow>
   MasterPid arguments > 0 \<longrightarrow>
     k_fail K (trace s @ [RtLockOSThread]) (NsEnter (MasterPid arguments) ''ipc'') = None \<Longrightarrow>
     (if MasterPid arguments > 0 \<and> k_fail K (tr @ [ev]) (NsEnter (self_pid s) ''ipc'') \<noteq> None
      then reply = None \<and>
           err = map_option (\<lambda>e. Errorf ''while joining container IPC namespace: %s'' [ArgE e])
                   (k_fail K (tr @ [ev]) (NsEnter (self_pid s) ''ipc''))
      else reply = Some (''/dev/mapper/'' @ fst (k_crypt_open K tr ev)) \<and>
           err = snd (k_crypt_open K tr ev))"
  by (auto simp: Decrypt_def Decrypt_body_def crypt_open_eq call_def emit_def
           split: option.splits prod.splits if_splits)

text \<open>A failing unlock that answers no name: the reply is \<open>/dev/mapper/\<close>.\<close>

theorem Decrypt_reply_assigned_witness:
  "fst (snd (Decrypt K_locked world0 (crypt_args 1))) = Some ''/dev/mapper/''
   \<and> snd (snd (Decrypt K_locked world0 (crypt_args 1)))
       = Some (ExtErr ''unable to open crypt device'')"
  using Decrypt_reply_assigned [of K_locked world0 "crypt_args 1"
      "fst (Decrypt K_locked world0 (crypt_args 1))"
      "fst (snd (Decrypt K_locked world0 (crypt_args 1)))"
      "snd (snd (Decrypt K_locked world0 (crypt_args 1)))"
      "[RtLockOSThread, NsEnter 1 ''ipc'']" "CryptOpen [1, 2, 3] ''/dev/loop0''"]
  by (simp add: K_locked_def K_ok_def world0_def crypt_args_def)

text \<open>
  Claim C10 as it is written fails: with master pid 1 and a kernel that refuses the
  join back into the namespace of the own pid, the call reaches the unlock and
  returns without a reply.
\<close>

theorem Decrypt_reply_unassigned:
  "CryptOpen [1, 2, 3] ''/dev/loop0''
     \<in> set (trace (fst (Decrypt (K_refusing (\<lambda>ev. ev = NsEnter 4242 ''ipc'')) world0
                           (crypt_args 1))))
   \<and> fst (snd (Decrypt (K_refusing (\<lambda>ev. ev = NsEnter 4242 ''ipc'')) world0 (crypt_args 1)))
       = None
   \<and> snd (snd (Decrypt (K_refusing (\<lambda>ev. ev = NsEnter 4242 ''ipc'')) world0 (crypt_args 1)))
       = Some (Errorf ''while joining container IPC namespace: %s''
                 [ArgE (ExtErr ''operation not permitted'')])"
  by (simp add: Decrypt_def Decrypt_body_def crypt_open_eq call_def emit_def
        K_refusing_def K_ok_def world0_def crypt_args_def)

subsection \<open>Chroot\<close>

lemma chdir_slash_ok:
  "chdir_slash K s = (s', None) \<Longrightarrow>
     cwd s' = Abs ''/'' \<and> trace s' = trace s @ [SysChdir ''/''] \<and>
     k_fail K (trace s) (SysChdir ''/'') = None"
  by (auto simp: chdir_slash_def step_def call_def emit_def is_abs_def split: option.splits)

lemma steps_then_chdir_slash:
  "steps (fs @ [chdir_slash K]) s = (s', None) \<Longrightarrow>
     cwd s' = Abs ''/'' \<and>
     (\<exists>tr. trace s' = tr @ [SysChdir ''/''] \<and> k_fail K tr (SysChdir ''/'') = None)"
proof (induction fs arbitrary: s)
  case Nil
  then have "chdir_slash K s = (s', None)"
    by (auto split: prod.splits option.splits)
  then show ?case using chdir_slash_ok by blast
next
  case (Cons f fs)
  then obtain s1 where "f s = (s1, None)" and "steps (fs @ [chdir_slash K]) s1 = (s', None)"
    by (auto split: prod.splits option.splits)
  then show ?case using Cons.IH by blast
qed

text \<open>
  Claim C2. Whenever \<open>Chroot\<close> returns without error, for \<open>pivot\<close>, \<open>move\<close>,
  \<open>chroot\<close> (and any other strategy string), the current directory is \<open>/\<close>: the
  last call of the run, before the host root descriptor is closed in the pivot case,
  is \<open>chdir("/")\<close>, and the kernel accepted it. Had the kernel refused it, \<open>Chroot\<close>
  would not have returned without error.
\<close>

theorem Chroot_success_cwd_root:
  "Chroot K s arguments = (s', None) \<Longrightarrow>
     cwd s' = Abs ''/'' \<and>
     (\<exists>tr cl. trace s' = tr @ SysChdir ''/'' # cl \<and>
              k_fail K tr (SysChdir ''/'') = None \<and>
              (cl = [] \<or> (\<exists>f. cl = [FileClose f])))"
proof -
  assume a: "Chroot K s arguments = (s', None)"
  obtain s1 r1 where e: "chroot_enter K s (Root arguments) = (s1, r1)"
    by (cases "chroot_enter K s (Root arguments)")
  from a e obtain root where r1: "r1 = Inr root"
    by (cases r1) (auto simp: Chroot_def)
  show ?thesis
  proof (cases "Method arguments = ''pivot''")
    case True
    obtain s2 r2 where o: "os_open K (OsOpen ''/'') s1 = (s2, r2)"
      by (cases "os_open K (OsOpen ''/'') s1")
    from a e r1 True o obtain oldroot where r2: "r2 = Inr oldroot"
      by (cases r2) (auto simp: Chroot_def)
    obtain s3 r3 where st: "steps (pivot_steps K root oldroot @ [chdir_slash K]) s2 = (s3, r3)"
      by (cases "steps (pivot_steps K root oldroot @ [chdir_slash K]) s2")
    from a e r1 True o r2 st have s': "s' = emit (FileClose oldroot) s3" and r3: "r3 = None"
      by (auto simp: Chroot_def)
    from st r3 steps_then_chdir_slash
    obtain tr where "cwd s3 = Abs ''/''" "trace s3 = tr @ [SysChdir ''/'']"
      "k_fail K tr (SysChdir ''/'') = None"
      by blast
    with s' show ?thesis by (auto simp: emit_def)
  next
    case False
    with a e r1 obtain fs where "steps (fs @ [chdir_slash K]) s1 = (s', None)"
      by (auto simp: Chroot_def split: if_splits intro: that [of "[]"])
    then show ?thesis using steps_then_chdir_slash by fastforce
  qed
qed

text \<open>The three strategies under a kernel that accepts every call.\<close>

theorem Chroot_success_cwd_root_witness:
  "snd (Chroot K_ok world0 \<lparr>Root = ''/mnt/rootfs'', Method = ''pivot''\<rparr>) = None
   \<and> cwd (fst (Chroot K_ok world0 \<lparr>Root = ''/mnt/rootfs'', Method = ''pivot''\<rparr>)) = Abs ''/''
   \<and> cwd (fst (Chroot K_ok world0 \<lparr>Root = ''/mnt/rootfs'', Method = ''move''\<rparr>)) = Abs ''/''
   \<and> cwd (fst (Chroot K_ok world0 \<lparr>Root = ''/mnt/rootfs'', Method = ''chroot''\<rparr>)) = Abs ''/''"
  using Chroot_success_cwd_root [of K_ok world0 "\<lparr>Root = ''/mnt/rootfs'', Method = ''pivot''\<rparr>"
      "fst (Chroot K_ok world0 \<lparr>Root = ''/mnt/rootfs'', Method = ''pivot''\<rparr>)"]
    Chroot_success_cwd_root [of K_ok world0 "\<lparr>Root = ''/mnt/rootfs'', Method = ''move''\<rparr>"
      "fst (Chroot K_ok world0 \<lparr>Root = ''/mnt/rootfs'', Method = ''move''\<rparr>)"]
    Chroot_success_cwd_root [of K_ok world0 "\<lparr>Root = ''/mnt/rootfs'', Method = ''chroot''\<rparr>"
      "fst (Chroot K_ok world0 \<lparr>Root = ''/mnt/rootfs'', Method = ''chroot''\<rparr>)"]
  by (simp add: Chroot_def chroot_enter_def os_open_def pivot_steps_def move_steps_def
        chroot_steps_def chdir_slash_def step_def call_def emit_def K_ok_def world0_def is_abs_def)

text \<open>
  Claim C9, as the code has it. The claim says that every call with an unknown
  strategy executes the final \<open>chdir("/")\<close> and returns success. With a strategy that
  is none of \<open>pivot\<close>, \<open>move\<close>, \<open>chroot\<close>, no root-switch call is made and the strategy
  is never refused. The first call \<open>pre\<close> is the \<open>chdir\<close> into the root, or the query of
  the current directory when the root is \<open>.\<close>. When that \<open>chdir\<close> fails, \<open>Chroot\<close>
  returns its error and nothing else is called. Otherwise the only other call is
  the final \<open>chdir("/")\<close>, and \<open>Chroot\<close> returns success when the kernel accepts it
  and the wrapped error when it does not.
\<close>

theorem Chroot_unknown_method:
  "Method arguments \<notin> {''pivot'', ''move'', ''chroot''} \<Longrightarrow>
   Chroot K s arguments = (s', r) \<Longrightarrow>
   pre = (if Root arguments \<noteq> ''.'' then SysChdir (Root arguments) else OsGetwd) \<Longrightarrow>
     (if Root arguments \<noteq> ''.'' \<and> k_fail K (trace s) pre \<noteq> None
      then trace s' = trace s @ [pre] \<and>
           r = Some (Errorf ''failed to change directory to %s'' [ArgS (Root arguments)])
      else trace s' = trace s @ [pre, SysChdir ''/''] \<and>
           r = map_option (\<lambda>err. Errorf ''chdir / %s'' [ArgE err])
                 (k_fail K (trace s @ [pre]) (SysChdir ''/'')) \<and>
           (r = None \<longrightarrow> cwd s' = Abs ''/''))"
  by (auto simp: Chroot_def chroot_enter_def getwd_def chdir_slash_def step_def call_def
        emit_def is_abs_def split: option.splits sum.splits if_splits)

theorem Chroot_unknown_method_witness:
  "trace (fst (Chroot K_ok world0 \<lparr>Root = ''rootfs'', Method = ''bogus''\<rparr>))
     = [SysChdir ''rootfs'', SysChdir ''/'']
   \<and> snd (Chroot K_ok world0 \<lparr>Root = ''rootfs'', Method = ''bogus''\<rparr>) = None"
  using Chroot_unknown_method [of "\<lparr>Root = ''rootfs'', Method = ''bogus''\<rparr>" K_ok world0
      "fst (Chroot K_ok world0 \<lparr>Root = ''rootfs'', Method = ''bogus''\<rparr>)"
      "snd (Chroot K_ok world0 \<lparr>Root = ''rootfs'', Method = ''bogus''\<rparr>)"
      "SysChdir ''rootfs''"]
  by (simp add: K_ok_def world0_def)

text \<open>
  Claim C9 as it is written fails: with the strategy \<open>bogus\<close> and a root the kernel
  refuses to enter, \<open>Chroot\<close> returns an error and never calls \<open>chdir("/")\<close>.
\<close>

theorem Chroot_unknown_method_chdir_refused:
  "Method \<lparr>Root = ''/nonexistent'', Method = ''bogus''\<rparr> \<notin> {''pivot'', ''move'', ''chroot''}
   \<and> snd (Chroot (K_refusing (\<lambda>ev. ev = SysChdir ''/nonexistent'')) world0
              \<lparr>Root = ''/nonexistent'', Method = ''bogus''\<rparr>)
       = Some (Errorf ''failed to change directory to %s'' [ArgS ''/nonexistent''])
   \<and> SysChdir ''/'' \<notin> set (trace (fst (Chroot (K_refusing (\<lambda>ev. ev = SysChdir ''/nonexistent''))
                                     world0 \<lparr>Root = ''/nonexistent'', Method = ''bogus''\<rparr>)))"
  by (simp add: Chroot_def chroot_enter_def call_def emit_def K_refusing_def K_ok_def world0_def)

subsection \<open>LoopDevice\<close>

lemma open_image_cases:
  "open_image K s arguments = (s1, r) \<Longrightarrow>
     s1 = s \<or> (\<exists>n. s1 = emit (OsNewFile n) s) \<or>
     s1 = emit (OsOpenFile (Image arguments) (Mode arguments) 384) s"
  by (auto simp: open_image_def os_open_def Let_def split: sum.splits if_splits)

lemma open_image_frame:
  assumes "open_image K s arguments = (s1, r)"
  shows "fsuid s1 = fsuid s" "fsgid s1 = fsgid s" "ruid s1 = ruid s" "rgid s1 = rgid s"
    "diskGID s1 = diskGID s" "count_lookups (trace s1) = count_lookups (trace s)"
  using open_image_cases [OF assms] by (auto simp: emit_def count_lookups_def)

lemma lookup_diskGID_cached: "diskGID s \<noteq> - 1 \<Longrightarrow> lookup_diskGID K s = s"
  by (simp add: lookup_diskGID_def)

lemma lookup_diskGID_first:
  "diskGID s = - 1 \<Longrightarrow>
     lookup_diskGID K s =
       (emit (GetGrNam ''disk'') s)
         \<lparr>diskGID := (case k_getgrnam K (trace s) ''disk'' of Inr gid \<Rightarrow> uint gid | Inl err \<Rightarrow> 0)\<rparr>"
  by (simp add: lookup_diskGID_def split: sum.splits)

lemma lookup_diskGID_resolved: "diskGID (lookup_diskGID K s) \<noteq> - 1"
proof (cases "diskGID s = - 1")
  case True
  have "0 \<le> uint g" for g :: "32 word" by simp
  then have "uint g \<noteq> - 1" for g :: "32 word" by (metis not_one_le_zero neg_0_le_iff_le)
  then show ?thesis using True by (simp add: lookup_diskGID_first emit_def split: sum.splits)
next
  case False
  then show ?thesis by (simp add: lookup_diskGID_cached)
qed

lemma lookup_diskGID_frame:
  "fsuid (lookup_diskGID K s) = fsuid s" "fsgid (lookup_diskGID K s) = fsgid s"
  "ruid (lookup_diskGID K s) = ruid s" "rgid (lookup_diskGID K s) = rgid s"
  by (auto simp: lookup_diskGID_def emit_def split: sum.splits)

lemma id_val_range: "0 \<le> id_val k" "id_val k < 4294967295"
  using id_val [of k] by simp_all

lemma id_val_low_bits: "id_val k mod 4294967296 = id_val k"
  using id_val_range [of k] by simp

lemma kid_of_id_val: "kid_of (id_val k) = k"
  using id_val_range [of k] by (simp add: id_val_inject [symmetric] kid_of.rep_eq)

lemma Setfsuid_frame:
  "trace (Setfsuid u s) = trace s @ [SysSetfsuid u]" "fsgid (Setfsuid u s) = fsgid s"
  "ruid (Setfsuid u s) = ruid s" "rgid (Setfsuid u s) = rgid s"
  "egid (Setfsuid u s) = egid s" "sgid (Setfsuid u s) = sgid s"
  "setid_cap (Setfsuid u s) = setid_cap s" "diskGID (Setfsuid u s) = diskGID s"
  by (simp_all add: Setfsuid_def emit_def Let_def)

lemma Setfsgid_frame:
  "trace (Setfsgid g s) = trace s @ [SysSetfsgid g]" "fsuid (Setfsgid g s) = fsuid s"
  "ruid (Setfsgid g s) = ruid s" "rgid (Setfsgid g s) = rgid s"
  "euid (Setfsgid g s) = euid s" "suid (Setfsgid g s) = suid s"
  "setid_cap (Setfsgid g s) = setid_cap s" "diskGID (Setfsgid g s) = diskGID s"
  by (simp_all add: Setfsgid_def emit_def Let_def)

lemma Setfsuid_real: "u = id_val (ruid s) \<Longrightarrow> fsuid (Setfsuid u s) = ruid s"
  using id_val_range [of "ruid s"]
  by (simp add: Setfsuid_def emit_def Let_def id_val_low_bits kid_of_id_val)

lemma Setfsgid_real: "g = id_val (rgid s) \<Longrightarrow> fsgid (Setfsgid g s) = rgid s"
  using id_val_range [of "rgid s"]
  by (simp add: Setfsgid_def emit_def Let_def id_val_low_bits kid_of_id_val)

lemma emit_frame:
  "fsuid (emit ev s) = fsuid s" "fsgid (emit ev s) = fsgid s"
  "ruid (emit ev s) = ruid s" "rgid (emit ev s) = rgid s" "diskGID (emit ev s) = diskGID s"
  by (simp_all add: emit_def)

lemma attach_escalated_frame:
  assumes "attach_escalated K s arguments img = (s', reply, err)"
  shows "fsuid s' = ruid s" "fsgid s' = rgid s" "diskGID s' = diskGID s"
    "trace s' = trace s @ [RtLockOSThread, SysSetfsuid 0, SysSetfsgid (diskGID s),
                AttachFromFile (MaxDevices arguments) (Info arguments) (Shared arguments) img
                  (Mode arguments),
                SysSetfsgid (id_val (rgid s)), SysSetfsuid (id_val (ruid s)),
                RtUnlockOSThread]"
proof -
  define s3 where "s3 = Setfsgid (diskGID s) (Setfsuid 0 (emit RtLockOSThread s))"
  define ev where "ev = AttachFromFile (MaxDevices arguments) (Info arguments)
                          (Shared arguments) img (Mode arguments)"
  define s5 where "s5 = Setfsgid (id_val (rgid s)) (emit ev s3)"
  define s7 where "s7 = emit RtUnlockOSThread (Setfsuid (id_val (ruid s)) s5)"
  have ids: "ruid s3 = ruid s" "rgid s3 = rgid s" "diskGID s3 = diskGID s"
    "trace s3 = trace s @ [RtLockOSThread, SysSetfsuid 0, SysSetfsgid (diskGID s)]"
    by (simp_all add: s3_def Setfsuid_frame Setfsgid_frame emit_frame trace_emit)
  have ids5: "ruid s5 = ruid s" "rgid (emit ev s3) = rgid s" "diskGID s5 = diskGID s"
    by (simp_all add: s5_def Setfsgid_frame emit_frame ids)
  have "attach_escalated K s arguments img =
          (s7, case k_attach K (trace s3) ev of
                 Inl e \<Rightarrow> (None, Some (Errorf ''could not attach image file to loop device: %v''
                                            [ArgE e]))
               | Inr n \<Rightarrow> (Some n, None))"
    by (simp add: attach_escalated_def attach_def Let_def s3_def s5_def s7_def ev_def
          Getuid_def Getgid_def Setfsuid_frame Setfsgid_frame emit_frame split: sum.splits)
  with assms have s': "s' = s7" by simp
  show "fsuid s' = ruid s"
    by (simp add: s' s7_def emit_frame Setfsuid_real ids5)
  show "fsgid s' = rgid s"
    by (simp add: s' s7_def s5_def emit_frame Setfsuid_frame Setfsgid_real ids)
  show "diskGID s' = diskGID s"
    by (simp add: s' s7_def emit_frame Setfsuid_frame ids5)
  show "trace s' = trace s @ [RtLockOSThread, SysSetfsuid 0, SysSetfsgid (diskGID s),
                AttachFromFile (MaxDevices arguments) (Info arguments) (Shared arguments) img
                  (Mode arguments),
                SysSetfsgid (id_val (rgid s)), SysSetfsuid (id_val (ruid s)),
                RtUnlockOSThread]"
    by (simp add: s' s7_def s5_def trace_emit Setfsuid_frame Setfsgid_frame ids ev_def)
qed

text \<open>
  Claim C1, as the code has it. The claim says that the filesystem ids after the call
  are those before it. A call that returns before the escalation (the image could not
  be converted or opened) leaves both ids as they were. A call that gets past it
  ends, whether the attach succeeded or failed, with the filesystem uid equal to the
  real uid and the filesystem gid equal to the real gid of the process, which is
  what the deferred calls set. So the ids after the call are those before it
  whenever those were the real ids.
\<close>

theorem LoopDevice_fs_identity:
  "LoopDevice K s arguments = (s', reply, err) \<Longrightarrow>
     (case snd (open_image K s arguments) of
        Inl e \<Rightarrow> err = Some e \<and> fsuid s' = fsuid s \<and> fsgid s' = fsgid s
      | Inr img \<Rightarrow> fsuid s' = ruid s \<and> fsgid s' = rgid s) \<and>
     (fsuid s = ruid s \<and> fsgid s = rgid s \<longrightarrow> fsuid s' = fsuid s \<and> fsgid s' = fsgid s)"
proof -
  assume a: "LoopDevice K s arguments = (s', reply, err)"
  obtain s1 r where o: "open_image K s arguments = (s1, r)"
    by (cases "open_image K s arguments")
  show ?thesis
  proof (cases r)
    case (Inl e)
    with a o have "s' = s1" "err = Some e" by (auto simp: LoopDevice_def)
    with o Inl show ?thesis by (simp add: open_image_frame)
  next
    case (Inr img)
    with a o have "attach_escalated K (lookup_diskGID K s1) arguments img = (s', reply, err)"
      by (simp add: LoopDevice_def)
    from attach_escalated_frame(1,2) [OF this] o Inr show ?thesis
      by (simp add: lookup_diskGID_frame open_image_frame)
  qed
qed

text \<open>A failing attach in a server whose filesystem ids are its real ids.\<close>

theorem LoopDevice_fs_identity_witness:
  "fsuid (fst (LoopDevice (K_ok\<lparr>k_attach := \<lambda>tr ev. Inl (ExtErr ''no loop devices available'')\<rparr>)
                 world0 (loop_args ''/tmp/image.sif''))) = kid_of 1000
   \<and> fsgid (fst (LoopDevice (K_ok\<lparr>k_attach := \<lambda>tr ev. Inl (ExtErr ''no loop devices available'')\<rparr>)
                 world0 (loop_args ''/tmp/image.sif''))) = kid_of 1000
   \<and> fsuid world0 = kid_of 1000 \<and> fsgid world0 = kid_of 1000"
  using LoopDevice_fs_identity [of "K_ok\<lparr>k_attach := \<lambda>tr ev. Inl (ExtErr ''no loop devices available'')\<rparr>"
      world0 "loop_args ''/tmp/image.sif''"
      "fst (LoopDevice (K_ok\<lparr>k_attach := \<lambda>tr ev. Inl (ExtErr ''no loop devices available'')\<rparr>)
                 world0 (loop_args ''/tmp/image.sif''))"
      "fst (snd (LoopDevice (K_ok\<lparr>k_attach := \<lambda>tr ev. Inl (ExtErr ''no loop devices available'')\<rparr>)
                 world0 (loop_args ''/tmp/image.sif'')))"
      "snd (snd (LoopDevice (K_ok\<lparr>k_attach := \<lambda>tr ev. Inl (ExtErr ''no loop devices available'')\<rparr>)
                 world0 (loop_args ''/tmp/image.sif'')))"]
  by (simp add: world0_def)

text \<open>
  Claim C1 as it is written fails: in a server whose filesystem ids are 0 and whose
  real ids are 1000, the ids after a successful attach are 1000, not 0.
\<close>

theorem LoopDevice_fs_identity_not_restored:
  "id_val (fsuid world_suid) = 0 \<and> id_val (fsgid world_suid) = 0
   \<and> id_val (fsuid (fst (LoopDevice K_ok world_suid (loop_args ''/tmp/image.sif'')))) = 1000
   \<and> id_val (fsgid (fst (LoopDevice K_ok world_suid (loop_args ''/tmp/image.sif'')))) = 1000"
proof -
  define s1 where "s1 = emit (OsOpenFile ''/tmp/image.sif'' 2 384) world_suid"
  have o: "open_image K_ok world_suid (loop_args ''/tmp/image.sif'') = (s1, Inr (File 3))"
    by (simp add: open_image_def HasPrefix_def os_open_def K_ok_def loop_args_def s1_def)
  obtain s' reply err where
    at: "attach_escalated K_ok (lookup_diskGID K_ok s1) (loop_args ''/tmp/image.sif'') (File 3)
           = (s', reply, err)"
    by (cases "attach_escalated K_ok (lookup_diskGID K_ok s1) (loop_args ''/tmp/image.sif'')
                 (File 3)")
  with o have L: "fst (LoopDevice K_ok world_suid (loop_args ''/tmp/image.sif'')) = s'"
    by (simp add: LoopDevice_def)
  have real: "ruid s1 = kid_of 1000" "rgid s1 = kid_of 1000"
    by (simp_all add: s1_def emit_frame world_suid_def world0_def)
  from attach_escalated_frame(1,2) [OF at] real
  have "fsuid s' = kid_of 1000" "fsgid s' = kid_of 1000"
    by (simp_all add: lookup_diskGID_frame)
  then have after: "id_val (fsuid (fst (LoopDevice K_ok world_suid (loop_args ''/tmp/image.sif''))))
      = 1000"
    "id_val (fsgid (fst (LoopDevice K_ok world_suid (loop_args ''/tmp/image.sif'')))) = 1000"
    by (simp_all add: L kid_of.rep_eq)
  have "id_val (fsuid world_suid) = 0" "id_val (fsgid world_suid) = 0"
    by (simp_all add: world_suid_def kid_of.rep_eq)
  with after show ?thesis by simp
qed

lemma count_lookups_append:
  "count_lookups (tr @ evs) = count_lookups tr + count_lookups evs"
  by (simp add: count_lookups_def)

lemma LoopDevice_cached:
  assumes "diskGID s \<noteq> - 1"
  shows "diskGID (fst (LoopDevice K s arguments)) = diskGID s \<and>
         count_lookups (trace (fst (LoopDevice K s arguments))) = count_lookups (trace s)"
proof -
  obtain s1 r where o: "open_image K s arguments = (s1, r)"
    by (cases "open_image K s arguments")
  have d1: "diskGID s1 = diskGID s" and c1: "count_lookups (trace s1) = count_lookups (trace s)"
    using open_image_frame [OF o] by simp_all
  show ?thesis
  proof (cases r)
    case (Inl e)
    with o d1 c1 show ?thesis by (simp add: LoopDevice_def)
  next
    case (Inr img)
    obtain s' reply err where at: "attach_escalated K s1 arguments img = (s', reply, err)"
      by (cases "attach_escalated K s1 arguments img")
    from assms d1 have l: "lookup_diskGID K s1 = s1" by (simp add: lookup_diskGID_cached)
    from o Inr l at have L: "fst (LoopDevice K s arguments) = s'" by (simp add: LoopDevice_def)
    from attach_escalated_frame(3,4) [OF at] d1 c1 show ?thesis
      by (simp add: L count_lookups_append) (simp add: count_lookups_def)
  qed
qed

lemma LoopDevice_first:
  assumes "diskGID s = - 1" and o: "open_image K s arguments = (s1, r)"
  shows "case r of
           Inl e \<Rightarrow> diskGID (fst (LoopDevice K s arguments)) = - 1 \<and>
                    count_lookups (trace (fst (LoopDevice K s arguments))) = count_lookups (trace s)
         | Inr img \<Rightarrow>
             diskGID (fst (LoopDevice K s arguments)) =
               (case k_getgrnam K (trace s1) ''disk'' of Inr gid \<Rightarrow> uint gid | Inl e \<Rightarrow> 0) \<and>
             diskGID (fst (LoopDevice K s arguments)) \<noteq> - 1 \<and>
             SysSetfsgid (diskGID (fst (LoopDevice K s arguments)))
               \<in> set (trace (fst (LoopDevice K s arguments))) \<and>
             count_lookups (trace (fst (LoopDevice K s arguments))) = count_lookups (trace s) + 1"
proof -
  have d1: "diskGID s1 = - 1" and c1: "count_lookups (trace s1) = count_lookups (trace s)"
    using open_image_frame [OF o] assms(1) by simp_all
  show ?thesis
  proof (cases r)
    case (Inl e)
    with o d1 c1 show ?thesis by (simp add: LoopDevice_def)
  next
    case (Inr img)
    define s2 where "s2 = lookup_diskGID K s1"
    obtain s' reply err where at: "attach_escalated K s2 arguments img = (s', reply, err)"
      by (cases "attach_escalated K s2 arguments img")
    from o Inr at have L: "fst (LoopDevice K s arguments) = s'"
      by (simp add: LoopDevice_def s2_def)
    have s2: "diskGID s2 = (case k_getgrnam K (trace s1) ''disk'' of Inr gid \<Rightarrow> uint gid | Inl e \<Rightarrow> 0)"
      "trace s2 = trace s1 @ [GetGrNam ''disk'']"
      using d1 by (simp_all add: s2_def lookup_diskGID_first emit_def)
    have ne: "diskGID s2 \<noteq> - 1" by (simp add: s2_def lookup_diskGID_resolved)
    from attach_escalated_frame(3,4) [OF at] s2 ne c1 Inr show ?thesis
      by (simp add: L count_lookups_append) (simp add: count_lookups_def)
  qed
qed

lemma LoopDevice_calls_cached:
  "diskGID s \<noteq> - 1 \<Longrightarrow>
     diskGID (LoopDevice_calls cs s) = diskGID s \<and>
     count_lookups (trace (LoopDevice_calls cs s)) = count_lookups (trace s)"
proof (induction cs arbitrary: s)
  case Nil
  then show ?case by simp
next
  case (Cons c cs)
  obtain K arguments where c: "c = (K, arguments)" by (cases c)
  from Cons.prems have "diskGID (fst (LoopDevice K s arguments)) \<noteq> - 1"
    by (simp add: LoopDevice_cached)
  from Cons.IH [OF this] Cons.prems show ?case
    by (simp add: c LoopDevice_cached)
qed

lemma LoopDevice_calls_once:
  "count_lookups (trace (LoopDevice_calls cs s)) \<le> count_lookups (trace s) + 1"
proof (induction cs arbitrary: s)
  case Nil
  then show ?case by simp
next
  case (Cons c cs)
  obtain K arguments where c: "c = (K, arguments)" by (cases c)
  define s' where "s' = fst (LoopDevice K s arguments)"
  show ?case
  proof (cases "diskGID s = - 1")
    case False
    then show ?thesis using LoopDevice_calls_cached [of s "c # cs"] by simp
  next
    case True
    obtain s1 r where o: "open_image K s arguments = (s1, r)"
      by (cases "open_image K s arguments")
    show ?thesis
    proof (cases r)
      case (Inl e)
      with LoopDevice_first [OF True o]
      have "count_lookups (trace s') = count_lookups (trace s)" by (simp add: s'_def)
      with Cons.IH [of s'] show ?thesis by (simp add: c s'_def)
    next
      case (Inr img)
      with LoopDevice_first [OF True o]
      have "diskGID s' \<noteq> - 1" "count_lookups (trace s') = count_lookups (trace s) + 1"
        by (simp_all add: s'_def)
      with LoopDevice_calls_cached [of s' cs] show ?thesis by (simp add: c s'_def)
    qed
  qed
qed

text \<open>
  Claim C5. Once the cached id is set (it is not -1), a \<open>LoopDevice\<close> call, and any
  run of such calls under any kernels, leaves it as it is and looks nothing up. While
  it is unset (-1, as at the start of the process), a call that returns before the
  lookup leaves it unset and looks nothing up; a call that reaches the lookup looks
  the group \<open>disk\<close> up once, caches its id when the lookup succeeded and 0 when it
  failed, never -1, and escalates to the cached id. So any run of calls makes at
  most one lookup, whatever the group database answers from call to call.
\<close>

theorem diskGID_resolved_once:
  "(diskGID s \<noteq> - 1 \<longrightarrow>
      diskGID (fst (LoopDevice K s arguments)) = diskGID s \<and>
      count_lookups (trace (fst (LoopDevice K s arguments))) = count_lookups (trace s) \<and>
      diskGID (LoopDevice_calls cs s) = diskGID s \<and>
      count_lookups (trace (LoopDevice_calls cs s)) = count_lookups (trace s)) \<and>
   (diskGID s = - 1 \<longrightarrow>
      (case open_image K s arguments of
         (s1, Inl e) \<Rightarrow>
           diskGID (fst (LoopDevice K s arguments)) = - 1 \<and>
           count_lookups (trace (fst (LoopDevice K s arguments))) = count_lookups (trace s)
       | (s1, Inr img) \<Rightarrow>
           diskGID (fst (LoopDevice K s arguments)) =
             (case k_getgrnam K (trace s1) ''disk'' of Inr gid \<Rightarrow> uint gid | Inl e \<Rightarrow> 0) \<and>
           diskGID (fst (LoopDevice K s arguments)) \<noteq> - 1 \<and>
           SysSetfsgid (diskGID (fst (LoopDevice K s arguments)))
             \<in> set (trace (fst (LoopDevice K s arguments))) \<and>
           count_lookups (trace (fst (LoopDevice K s arguments))) = count_lookups (trace s) + 1)) \<and>
   count_lookups (trace (LoopDevice_calls cs s)) \<le> count_lookups (trace s) + 1"
proof -
  obtain s1 r where o: "open_image K s arguments = (s1, r)"
    by (cases "open_image K s arguments")
  have "diskGID s = - 1 \<longrightarrow>
      (case open_image K s arguments of
         (s1, Inl e) \<Rightarrow>
           diskGID (fst (LoopDevice K s arguments)) = - 1 \<and>
           count_lookups (trace (fst (LoopDevice K s arguments))) = count_lookups (trace s)
       | (s1, Inr img) \<Rightarrow>
           diskGID (fst (LoopDevice K s arguments)) =
             (case k_getgrnam K (trace s1) ''disk'' of Inr gid \<Rightarrow> uint gid | Inl e \<Rightarrow> 0) \<and>
           diskGID (fst (LoopDevice K s arguments)) \<noteq> - 1 \<and>
           SysSetfsgid (diskGID (fst (LoopDevice K s arguments)))
             \<in> set (trace (fst (LoopDevice K s arguments))) \<and>
           count_lookups (trace (fst (LoopDevice K s arguments))) = count_lookups (trace s) + 1)"
  proof
    assume "diskGID s = - 1"
    from LoopDevice_first [OF this o] o show
      "case open_image K s arguments of
         (s1, Inl e) \<Rightarrow>
           diskGID (fst (LoopDevice K s arguments)) = - 1 \<and>
           count_lookups (trace (fst (LoopDevice K s arguments))) = count_lookups (trace s)
       | (s1, Inr img) \<Rightarrow>
           diskGID (fst (LoopDevice K s arguments)) =
             (case k_getgrnam K (trace s1) ''disk'' of Inr gid \<Rightarrow> uint gid | Inl e \<Rightarrow> 0) \<and>
           diskGID (fst (LoopDevice K s arguments)) \<noteq> - 1 \<and>
           SysSetfsgid (diskGID (fst (LoopDevice K s arguments)))
             \<in> set (trace (fst (LoopDevice K s arguments))) \<and>
           count_lookups (trace (fst (LoopDevice K s arguments))) = count_lookups (trace s) + 1"
      by (cases r) auto
  qed
  then show ?thesis
    using LoopDevice_cached [of s K arguments] LoopDevice_calls_cached [of s cs]
      LoopDevice_calls_once [of cs s]
    by blast
qed

text \<open>Two calls; between them the group database changes the id of \<open>disk\<close> from 6 to 7.\<close>

theorem diskGID_resolved_once_witness:
  "diskGID world0 = - 1
   \<and> diskGID (fst (LoopDevice K_ok world0 (loop_args ''/tmp/image.sif''))) = 6
   \<and> diskGID (LoopDevice_calls [(K_ok\<lparr>k_getgrnam := \<lambda>tr name. Inr 7\<rparr>, loop_args ''/proc/self/fd/7'')]
              (fst (LoopDevice K_ok world0 (loop_args ''/tmp/image.sif'')))) = 6
   \<and> count_lookups (trace (LoopDevice_calls
        [(K_ok\<lparr>k_getgrnam := \<lambda>tr name. Inr 7\<rparr>, loop_args ''/proc/self/fd/7'')]
        (fst (LoopDevice K_ok world0 (loop_args ''/tmp/image.sif''))))) = 1"
  using diskGID_resolved_once [of world0 K_ok "loop_args ''/tmp/image.sif''" "[]"]
    diskGID_resolved_once [of "fst (LoopDevice K_ok world0 (loop_args ''/tmp/image.sif''))"
      K_ok "loop_args ''/tmp/image.sif''"
      "[(K_ok\<lparr>k_getgrnam := \<lambda>tr name. Inr 7\<rparr>, loop_args ''/proc/self/fd/7'')]"]
  by (simp add: open_image_def HasPrefix_def os_open_def K_ok_def world0_def loop_args_def
        emit_def count_lookups_def)

















section \<open>Properties of the image-build engine\<close>

lemma monitor_step_returns:
  assumes "\<not> goes_on K pid (trace s) sg"
    and "monitor_loop K pid status s (sg # signals) = (s', r)"
  shows "trace s' = trace s @ [relay pid sg] \<and> r \<noteq> Receiving \<and>
         (\<forall>st. r = Returned st None \<longleftrightarrow>
                 sg = SIGCHLD \<and> k_wait4 K (trace s) (SysWait4 pid WNOHANG) = (pid, st, None))"
  using assms
  by (auto simp: goes_on_def relay_def wait4_def call_def emit_def
           split: if_splits prod.splits option.splits)

lemma monitor_step_goes_on:
  assumes "goes_on K pid (trace s) sg"
  shows "\<exists>status' s1. trace s1 = trace s @ [relay pid sg] \<and>
           monitor_loop K pid status s (sg # signals) = monitor_loop K pid status' s1 signals"
proof (cases "sg = SIGCHLD")
  case True
  obtain wpid st err where w: "k_wait4 K (trace s) (SysWait4 pid WNOHANG) = (wpid, st, err)"
    by (cases "k_wait4 K (trace s) (SysWait4 pid WNOHANG)")
  with assms True have "err = None" "wpid \<noteq> pid" by (simp_all add: goes_on_def)
  with w True have "monitor_loop K pid status s (sg # signals) =
      monitor_loop K pid st (emit (SysWait4 pid WNOHANG) s) signals"
    by (simp add: wait4_def)
  moreover have "trace (emit (SysWait4 pid WNOHANG) s) = trace s @ [relay pid sg]"
    using True by (simp add: relay_def emit_def)
  ultimately show ?thesis by blast
next
  case False
  with assms have "k_fail K (trace s) (SysKill pid sg) = None" by (simp add: goes_on_def)
  with False have "monitor_loop K pid status s (sg # signals) =
      monitor_loop K pid status (emit (SysKill pid sg) s) signals"
    by (simp add: call_def)
  moreover have "trace (emit (SysKill pid sg) s) = trace s @ [relay pid sg]"
    using False by (simp add: relay_def emit_def)
  ultimately show ?thesis by blast
qed

lemma monitor_loop_run:
  "monitor_loop K pid status s signals = (s', r) \<Longrightarrow>
     \<exists>received rest.
        signals = received @ rest \<and>
        trace s' = trace s @ map (relay pid) received \<and>
        (\<forall>i. Suc i < length received \<longrightarrow>
               goes_on K pid (trace s @ map (relay pid) (take i received)) (received ! i)) \<and>
        (r = Receiving \<longrightarrow> rest = []) \<and>
        (r \<noteq> Receiving \<longleftrightarrow>
           received \<noteq> [] \<and>
           \<not> goes_on K pid (trace s @ map (relay pid) (butlast received)) (last received)) \<and>
        (\<forall>st. r = Returned st None \<longleftrightarrow>
                received \<noteq> [] \<and> last received = SIGCHLD \<and>
                k_wait4 K (trace s @ map (relay pid) (butlast received)) (SysWait4 pid WNOHANG)
                  = (pid, st, None))"
proof (induction signals arbitrary: s status)
  case Nil
  then show ?case by simp
next
  case (Cons sg signals)
  show ?case
  proof (cases "goes_on K pid (trace s) sg")
    case False
    from monitor_step_returns [OF False Cons.prems]
    have "sg # signals = [sg] @ signals \<and>
        trace s' = trace s @ map (relay pid) [sg] \<and>
        (\<forall>i. Suc i < length [sg] \<longrightarrow>
               goes_on K pid (trace s @ map (relay pid) (take i [sg])) ([sg] ! i)) \<and>
        (r = Receiving \<longrightarrow> signals = []) \<and>
        (r \<noteq> Receiving \<longleftrightarrow>
           [sg] \<noteq> [] \<and>
           \<not> goes_on K pid (trace s @ map (relay pid) (butlast [sg])) (last [sg])) \<and>
        (\<forall>st. r = Returned st None \<longleftrightarrow>
                [sg] \<noteq> [] \<and> last [sg] = SIGCHLD \<and>
                k_wait4 K (trace s @ map (relay pid) (butlast [sg])) (SysWait4 pid WNOHANG)
                  = (pid, st, None))"
      using False by simp
    then show ?thesis by blast
  next
    case True
    note go = this
    from monitor_step_goes_on [OF True, of status signals]
    obtain status' s1 where t1: "trace s1 = trace s @ [relay pid sg]"
      and "monitor_loop K pid status s (sg # signals) = monitor_loop K pid status' s1 signals"
      by blast
    with Cons.prems have "monitor_loop K pid status' s1 signals = (s', r)" by simp
    from Cons.IH [OF this] obtain received rest where
      sp: "signals = received @ rest" and
      tr: "trace s' = trace s1 @ map (relay pid) received" and
      on: "\<And>i. Suc i < length received \<Longrightarrow>
               goes_on K pid (trace s1 @ map (relay pid) (take i received)) (received ! i)" and
      bl: "r = Receiving \<longrightarrow> rest = []" and
      rt: "r \<noteq> Receiving \<longleftrightarrow>
           received \<noteq> [] \<and>
           \<not> goes_on K pid (trace s1 @ map (relay pid) (butlast received)) (last received)" and
      ok: "\<And>st. r = Returned st None \<longleftrightarrow>
                received \<noteq> [] \<and> last received = SIGCHLD \<and>
                k_wait4 K (trace s1 @ map (relay pid) (butlast received)) (SysWait4 pid WNOHANG)
                  = (pid, st, None)"
      by blast
    have 1: "sg # signals = (sg # received) @ rest" using sp by simp
    have 2: "trace s' = trace s @ map (relay pid) (sg # received)" using tr t1 by simp
    have 3: "goes_on K pid (trace s @ map (relay pid) (take i (sg # received))) ((sg # received) ! i)"
      if "Suc i < length (sg # received)" for i
    proof (cases i)
      case 0
      then show ?thesis using True by simp
    next
      case (Suc j)
      with that have "Suc j < length received" by simp
      from on [OF this] show ?thesis using Suc t1 by simp
    qed
    have 5: "r \<noteq> Receiving \<longleftrightarrow>
           sg # received \<noteq> [] \<and>
           \<not> goes_on K pid (trace s @ map (relay pid) (butlast (sg # received)))
                (last (sg # received))"
      using rt True t1 by (cases "received = []") simp_all
    have 6: "r = Returned st None \<longleftrightarrow>
                sg # received \<noteq> [] \<and> last (sg # received) = SIGCHLD \<and>
                k_wait4 K (trace s @ map (relay pid) (butlast (sg # received)))
                  (SysWait4 pid WNOHANG) = (pid, st, None)" for st
    proof (cases "received = []")
      case True
      with ok [of st] rt go show ?thesis by (auto simp: goes_on_def)
    next
      case False
      with ok [of st] t1 show ?thesis by simp
    qed
    from 1 2 3 bl 5 6 show ?thesis by blast
  qed
qed

text \<open>
  Claim C8. Of the signals to be delivered, \<open>MonitorContainer\<close> receives a first
  part, \<open>received\<close>, and makes one call for each of them, in their order: for the
  child-termination signal a reap of the tracked pid that does not block, for any
  other signal a kill that sends it to the tracked pid. After every received signal
  but the last the loop went on: the kill did not fail, or the reap did not fail and
  gave a pid that is not the tracked one. The call is left waiting only when all
  signals were received, and it returns exactly when the call made for the last
  received signal does not let the loop go on. It returns a status with no error
  exactly when the last received signal is the child-termination signal and its
  reap gave the tracked pid without error, and the status is the one that reap
  collected.
\<close>

theorem MonitorContainer_relays_and_reaps:
  "MonitorContainer K pid s signals = (s', r) \<Longrightarrow>
     \<exists>received rest.
        signals = received @ rest \<and>
        trace s' = trace s @ map (relay pid) received \<and>
        (\<forall>i. Suc i < length received \<longrightarrow>
               goes_on K pid (trace s @ map (relay pid) (take i received)) (received ! i)) \<and>
        (r = Receiving \<longrightarrow> rest = []) \<and>
        (r \<noteq> Receiving \<longleftrightarrow>
           received \<noteq> [] \<and>
           \<not> goes_on K pid (trace s @ map (relay pid) (butlast received)) (last received)) \<and>
        (\<forall>st. r = Returned st None \<longleftrightarrow>
                received \<noteq> [] \<and> last received = SIGCHLD \<and>
                k_wait4 K (trace s @ map (relay pid) (butlast received)) (SysWait4 pid WNOHANG)
                  = (pid, st, None))"
  unfolding MonitorContainer_def by (rule monitor_loop_run)


text \<open>
  Five signals with a child that has not exited at the first reap: the call
  returns at the second \<open>SIGCHLD\<close> and never receives the fifth signal.
\<close>

theorem MonitorContainer_relays_and_reaps_witness:
  "MonitorContainer K_late_child 77 world0 [15, 17, 2, 17, 15]
     = (world0\<lparr>trace := [SysKill 77 15, SysWait4 77 1, SysKill 77 2, SysWait4 77 1]\<rparr>,
        Returned 256 None)
   \<and> map (relay 77) [15, 17, 2, 17]
     = [SysKill 77 15, SysWait4 77 1, SysKill 77 2, SysWait4 77 1]
   \<and> k_wait4 K_late_child (map (relay 77) [15, 17, 2]) (SysWait4 77 WNOHANG) = (77, 256, None)"
proof -
  have run: "MonitorContainer K_late_child 77 world0 [15, 17, 2, 17, 15]
     = (world0\<lparr>trace := [SysKill 77 15, SysWait4 77 1, SysKill 77 2, SysWait4 77 1]\<rparr>,
        Returned 256 None)"
    by (simp add: MonitorContainer_def wait4_def call_def emit_def K_late_child_def K_ok_def
          world0_def SIGCHLD_def WNOHANG_def)
  from MonitorContainer_relays_and_reaps [OF run] show ?thesis
    using run by (simp add: relay_def K_late_child_def K_ok_def SIGCHLD_def WNOHANG_def)
qed

end
